theory Spec2Isabelle
  imports Complex_Main
begin

section \<open>JavaScript values\<close>

text \<open>
  A JavaScript string is a sequence of UTF-16 code units; the Arabic keywords of the
  parser lie outside Latin-1, so a string is a list of code units as natural numbers.
  \<open>ascii\<close> writes an ASCII literal as such a list.
\<close>

type_synonym jsstring = "nat list"

definition ascii :: "string \<Rightarrow> jsstring" where
  "ascii s = map of_char s"

text \<open>
  A number is a double. The model keeps the finite ones as the rationals they denote
  (rounding is outside the model), the two infinities and NaN.
\<close>

datatype jsnum = Fin rat | PosInf | NegInf | NaN

text \<open>A cell or grade value: \<open>string | number | boolean\<close>; \<open>undefined\<close> is \<open>None\<close>.\<close>

datatype jsval = VStr jsstring | VNum jsnum | VBool bool

fun truthy :: "jsval option \<Rightarrow> bool" where
  "truthy None = False"
| "truthy (Some (VStr s)) = (s \<noteq> [])"
| "truthy (Some (VNum n)) = (n \<noteq> Fin 0 \<and> n \<noteq> NaN)"
| "truthy (Some (VBool b)) = b"

text \<open>\<open>v || ""\<close>\<close>

definition orEmpty :: "jsval option \<Rightarrow> jsval" where
  "orEmpty v = (case v of None \<Rightarrow> VStr [] | Some x \<Rightarrow> if truthy (Some x) then x else VStr [])"

text \<open>\<open>a === b\<close> on values: NaN is not equal to itself.\<close>

definition strict_eq :: "jsval \<Rightarrow> jsval \<Rightarrow> bool" where
  "strict_eq a b = (a = b \<and> a \<noteq> VNum NaN)"

text \<open>
  The built-ins of the JavaScript engine that the code calls. Their tables (Unicode case
  mapping, the number grammar) are not part of the repository, so they are parameters:
  \<open>toLowerCase\<close> is \<open>String.prototype.toLowerCase\<close>, \<open>canonicalize\<close> the per-code-unit
  case folding of a regular expression with the \<open>i\<close> flag, \<open>numToString\<close> is
  \<open>String(n)\<close> on a number and \<open>parseFloat\<close> the global function (NaN when no
  number can be read).
\<close>

record host =
  toLowerCase :: "jsstring \<Rightarrow> jsstring"
  canonicalize :: "nat \<Rightarrow> nat"
  numToString :: "jsnum \<Rightarrow> jsstring"
  parseFloat :: "jsstring \<Rightarrow> jsnum"

text \<open>\<open>String(v)\<close>, also the coercion of a value used as a property key.\<close>

fun toStr :: "host \<Rightarrow> jsval option \<Rightarrow> jsstring" where
  "toStr rt None = ascii ''undefined''"
| "toStr rt (Some (VStr s)) = s"
| "toStr rt (Some (VNum n)) = numToString rt n"
| "toStr rt (Some (VBool b)) = (if b then ascii ''true'' else ascii ''false'')"

text \<open>\<open>xs.slice(0, k)\<close>: a negative end counts from the end of the array.\<close>

definition slice0 :: "int \<Rightarrow> 'a list \<Rightarrow> 'a list" where
  "slice0 k xs = (if 0 \<le> k then take (nat k) xs else take (nat (int (length xs) + k)) xs)"

text \<open>\<open>xs[i]\<close> for an integer \<open>i\<close>: \<open>undefined\<close> outside the array.\<close>

definition nth_opt :: "'a list \<Rightarrow> int \<Rightarrow> 'a option" where
  "nth_opt xs i = (if 0 \<le> i \<and> i < int (length xs) then Some (xs ! nat i) else None)"

text \<open>A row object: its own properties in insertion order, keys unique.\<close>

type_synonym row = "(jsstring \<times> jsval) list"

definition row_get :: "row \<Rightarrow> jsstring \<Rightarrow> jsval option" where
  "row_get r k = map_of r k"

section \<open>types/index.ts\<close>

record HeaderMapping =
  m_id :: jsstring
  m_name :: jsstring
  m_grade :: jsstring
  gradeColumns :: "jsstring list"

section \<open>components/GradeTable.tsx\<close>

type_synonym gradeRec = "jsstring \<rightharpoonup> jsval"
type_synonym gradeStore = "jsstring \<rightharpoonup> gradeRec"

record EditHistoryEntry =
  studentId :: jsstring
  column :: jsstring
  oldValue :: jsval
  newValue :: jsval
  timestamp :: nat
  studentName :: "jsval option"

text \<open>The component's props and its \<open>useState\<close> cells.\<close>

record GradeTableProps =
  students :: "row list"
  mapping :: HeaderMapping

record GradeTableState =
  grades :: gradeStore
  editingCell :: "(jsstring \<times> jsstring) option"
  tempGrade :: jsstring
  previousValues :: gradeStore
  editHistory :: "EditHistoryEntry list"
  currentHistoryIndex :: int
  showUndoHistory :: bool

text \<open>
  What a handler reports: the toast it raises (or none, \<open>Unchanged\<close>), or the
  \<open>TypeError\<close> of destructuring an \<open>undefined\<close> history entry, which leaves the handler
  before any state setter runs.
\<close>

datatype outcome =
  InvalidGrade | Unchanged | GradeUpdated
  | UndoDone | NothingToUndo | RedoDone | NothingToRedo
  | HistoryJump | HistoryCleared | TypeError

definition getAllGradeColumns :: "HeaderMapping \<Rightarrow> jsstring list" where
  "getAllGradeColumns m = filter (\<lambda>c. c \<noteq> []) (m_grade m # gradeColumns m)"

text \<open>
  \<open>student[mapping.id]\<close> used as the key of \<open>grades\<close>. The component types a student
  id as \<open>string\<close>; the model takes the property key the cell value coerces to.
\<close>

definition studentKey :: "host \<Rightarrow> HeaderMapping \<Rightarrow> row \<Rightarrow> jsstring" where
  "studentKey rt m s = toStr rt (row_get s (m_id m))"

text \<open>\<open>grades[studentId]?.[column]\<close>\<close>

definition cell :: "gradeStore \<Rightarrow> jsstring \<Rightarrow> jsstring \<Rightarrow> jsval option" where
  "cell g sid col = (case g sid of None \<Rightarrow> None | Some r \<Rightarrow> r col)"

text \<open>
  \<open>if (!g[sid]) g[sid] = {}; g[sid] = {...g[sid], [col]: v}\<close>, the update every
  handler applies to one cell.
\<close>

definition setCell :: "gradeStore \<Rightarrow> jsstring \<Rightarrow> jsstring \<Rightarrow> jsval \<Rightarrow> gradeStore" where
  "setCell g sid col v = g(sid \<mapsto> (case g sid of None \<Rightarrow> Map.empty | Some r \<Rightarrow> r)(col \<mapsto> v))"

subsection \<open>Seeding the store (the first effect)\<close>

definition seedColumn :: "row \<Rightarrow> jsstring \<Rightarrow> gradeRec \<Rightarrow> gradeRec" where
  "seedColumn s col r =
     (if col \<noteq> [] \<and> row_get s col \<noteq> None then r(col \<mapsto> the (row_get s col)) else r)"

definition seedStudent :: "host \<Rightarrow> HeaderMapping \<Rightarrow> row \<Rightarrow> gradeStore \<Rightarrow> gradeStore" where
  "seedStudent rt m s g =
     g(studentKey rt m s \<mapsto> fold (seedColumn s) (gradeColumns m) (seedColumn s (m_grade m) Map.empty))"

text \<open>
  \<open>saved\<close> is the parsed \<open>gradeScribeGrades\<close> item of localStorage, \<open>None\<close> when the
  item is absent or does not parse. Saved values are merged into the students the sheet
  knows, and win per column.
\<close>

definition mergeSaved :: "gradeStore \<Rightarrow> gradeStore option \<Rightarrow> gradeStore" where
  "mergeSaved g saved =
     (case saved of
        None \<Rightarrow> g
      | Some p \<Rightarrow> (\<lambda>sid. case g sid of
                            None \<Rightarrow> None
                          | Some r \<Rightarrow> (case p sid of None \<Rightarrow> Some r | Some q \<Rightarrow> Some (r ++ q))))"

definition initialGrades :: "host \<Rightarrow> GradeTableProps \<Rightarrow> gradeStore option \<Rightarrow> gradeStore" where
  "initialGrades rt ps saved =
     mergeSaved (fold (seedStudent rt (mapping ps)) (students ps) Map.empty) saved"

definition initialState :: "host \<Rightarrow> GradeTableProps \<Rightarrow> gradeStore option \<Rightarrow> GradeTableState" where
  "initialState rt ps saved =
     \<lparr>grades = initialGrades rt ps saved, editingCell = None, tempGrade = [],
      previousValues = Map.empty, editHistory = [], currentHistoryIndex = -1,
      showUndoHistory = False\<rparr>"

subsection \<open>Editing\<close>

definition handleGradeChange :: "jsstring \<Rightarrow> GradeTableState \<Rightarrow> GradeTableState" where
  "handleGradeChange v st = st\<lparr>tempGrade := v\<rparr>"

definition startEditing :: "host \<Rightarrow> jsstring \<Rightarrow> jsstring \<Rightarrow> GradeTableState \<Rightarrow> GradeTableState" where
  "startEditing rt sid col st =
     st\<lparr>previousValues := setCell (previousValues st) sid col (orEmpty (cell (grades st) sid col)),
        editingCell := Some (sid, col),
        tempGrade := (case cell (grades st) sid col of
                        None \<Rightarrow> []
                      | Some v \<Rightarrow> toStr rt (Some v))\<rparr>"

text \<open>
  Each handler runs against the state of the render it was created in, one event per
  render, so the captured \<open>currentHistoryIndex\<close> and \<open>editHistory\<close> are the current
  ones and the updater argument \<open>prev\<close> of a setter is the captured value.
\<close>

definition addToEditHistory ::
  "host \<Rightarrow> GradeTableProps \<Rightarrow> nat \<Rightarrow> jsstring \<Rightarrow> jsstring \<Rightarrow> jsval \<Rightarrow> jsval
     \<Rightarrow> GradeTableState \<Rightarrow> GradeTableState" where
  "addToEditHistory rt ps now sid col old new st =
     (let student = find (\<lambda>s. studentKey rt (mapping ps) s = sid) (students ps);
          name = (case student of
                    Some s \<Rightarrow> row_get s (m_name (mapping ps))
                  | None \<Rightarrow> Some (VStr (ascii ''Unknown'')));
          newEntry = \<lparr>studentId = sid, column = col, oldValue = old, newValue = new,
                      timestamp = now, studentName = name\<rparr>;
          newHistory = slice0 (currentHistoryIndex st + 1) (editHistory st) @ [newEntry]
      in st\<lparr>editHistory :=
               (if length newHistory > 50 then drop (length newHistory - 50) newHistory
                else newHistory),
             currentHistoryIndex :=
               min (currentHistoryIndex st + 1) (int (length (editHistory st)))\<rparr>)"

definition validateGrade :: "host \<Rightarrow> jsstring \<Rightarrow> bool" where
  "validateGrade rt v =
     (if v = [] then True else if parseFloat rt v = NaN then False else True)"

definition saveGrade ::
  "host \<Rightarrow> GradeTableProps \<Rightarrow> nat \<Rightarrow> jsstring \<Rightarrow> jsstring \<Rightarrow> GradeTableState
     \<Rightarrow> outcome \<times> GradeTableState" where
  "saveGrade rt ps now sid col st =
     (if validateGrade rt (tempGrade st) then
        (let old = orEmpty (cell (grades st) sid col);
             new = (if tempGrade st = [] then VStr [] else VNum (parseFloat rt (tempGrade st)))
         in if strict_eq old new then (Unchanged, st\<lparr>editingCell := None\<rparr>)
            else (GradeUpdated,
                  (addToEditHistory rt ps now sid col old new st)
                    \<lparr>grades := setCell (grades st) sid col new, editingCell := None\<rparr>))
      else (InvalidGrade, st))"

text \<open>\<open>commitEdit(studentId, column, rawText)\<close>: the text typed into the cell, then saved.\<close>

definition commitEdit ::
  "host \<Rightarrow> GradeTableProps \<Rightarrow> nat \<Rightarrow> jsstring \<Rightarrow> jsstring \<Rightarrow> jsstring \<Rightarrow> GradeTableState
     \<Rightarrow> outcome \<times> GradeTableState" where
  "commitEdit rt ps now sid col raw st = saveGrade rt ps now sid col (handleGradeChange raw st)"

subsection \<open>Undo, redo, jump, clear\<close>

definition handleUndo :: "GradeTableState \<Rightarrow> outcome \<times> GradeTableState" where
  "handleUndo st =
     (if currentHistoryIndex st \<ge> 0 then
        (case nth_opt (editHistory st) (currentHistoryIndex st) of
           None \<Rightarrow> (TypeError, st)
         | Some entry \<Rightarrow>
             (UndoDone,
              st\<lparr>grades := setCell (grades st) (studentId entry) (column entry) (oldValue entry),
                 currentHistoryIndex :=
                   (if currentHistoryIndex st > 0 then currentHistoryIndex st - 1 else -1),
                 showUndoHistory := False\<rparr>))
      else (NothingToUndo, st))"

definition handleRedo :: "GradeTableState \<Rightarrow> outcome \<times> GradeTableState" where
  "handleRedo st =
     (if currentHistoryIndex st < int (length (editHistory st)) - 1 then
        (case nth_opt (editHistory st) (currentHistoryIndex st + 1) of
           None \<Rightarrow> (TypeError, st)
         | Some entry \<Rightarrow>
             (RedoDone,
              st\<lparr>grades := setCell (grades st) (studentId entry) (column entry) (newValue entry),
                 currentHistoryIndex :=
                   min (currentHistoryIndex st + 1) (int (length (editHistory st)) - 1),
                 showUndoHistory := False\<rparr>))
      else (NothingToRedo, st))"

text \<open>The reset of one student's grade columns to the sheet's values, \<open>student[column] || ""\<close>.\<close>

definition resetStudent :: "host \<Rightarrow> HeaderMapping \<Rightarrow> row \<Rightarrow> gradeStore \<Rightarrow> gradeStore" where
  "resetStudent rt m s g =
     (let sid = studentKey rt m s;
          g1 = (if g sid = None then g(sid \<mapsto> Map.empty) else g)
      in fold (\<lambda>col t. setCell t sid col (orEmpty (row_get s col))) (getAllGradeColumns m) g1)"

definition applyEntry :: "EditHistoryEntry \<Rightarrow> gradeStore \<Rightarrow> gradeStore" where
  "applyEntry e g = setCell g (studentId e) (column e) (newValue e)"

text \<open>
  \<open>jumpToHistoryPoint(index)\<close>; the history panel passes an array index. When the index
  is past the history, the loop throws at the first missing entry: no setter runs, but
  \<open>targetGrades\<close> is a shallow copy, so the per-student objects the state already holds
  have been written in place.
\<close>

definition jumpToHistoryPoint ::
  "host \<Rightarrow> GradeTableProps \<Rightarrow> nat \<Rightarrow> GradeTableState \<Rightarrow> outcome \<times> GradeTableState" where
  "jumpToHistoryPoint rt ps index st =
     (let reset = fold (resetStudent rt (mapping ps)) (students ps) (grades st)
      in if index < length (editHistory st) then
           (HistoryJump,
            st\<lparr>grades := fold applyEntry (take (index + 1) (editHistory st)) reset,
               currentHistoryIndex := int index,
               showUndoHistory := False\<rparr>)
         else
           (let target = fold applyEntry (editHistory st) reset
            in (TypeError,
                st\<lparr>grades := (\<lambda>sid. if grades st sid = None then None else target sid)\<rparr>)))"

definition clearHistory :: "GradeTableState \<Rightarrow> outcome \<times> GradeTableState" where
  "clearHistory st =
     (HistoryCleared, st\<lparr>editHistory := [], currentHistoryIndex := -1, showUndoHistory := False\<rparr>)"

subsection \<open>Sessions: sequences of user events\<close>

datatype event =
  Commit jsstring jsstring jsstring nat
  | Undo | Redo | Jump nat | Clear

fun handle :: "host \<Rightarrow> GradeTableProps \<Rightarrow> event \<Rightarrow> GradeTableState \<Rightarrow> GradeTableState" where
  "handle rt ps (Commit sid col raw now) st = snd (commitEdit rt ps now sid col raw st)"
| "handle rt ps Undo st = snd (handleUndo st)"
| "handle rt ps Redo st = snd (handleRedo st)"
| "handle rt ps (Jump i) st = snd (jumpToHistoryPoint rt ps i st)"
| "handle rt ps Clear st = snd (clearHistory st)"

definition run :: "host \<Rightarrow> GradeTableProps \<Rightarrow> event list \<Rightarrow> GradeTableState \<Rightarrow> GradeTableState" where
  "run rt ps evs st = fold (handle rt ps) evs st"

section \<open>utils/excelParser.ts\<close>

subsection \<open>Strings and regular expressions\<close>

text \<open>\<open>s.includes(p)\<close>\<close>

definition startsWith :: "jsstring \<Rightarrow> jsstring \<Rightarrow> bool" where
  "startsWith s p = (take (length p) s = p)"

fun includes_str :: "jsstring \<Rightarrow> jsstring \<Rightarrow> bool" where
  "includes_str [] p = (p = [])"
| "includes_str (x # xs) p = (startsWith (x # xs) p \<or> includes_str xs p)"

text \<open>\<open>s.trim()\<close>: white space and line terminators of ECMAScript.\<close>

definition isWhite :: "nat \<Rightarrow> bool" where
  "isWhite c = (c \<in> {9, 10, 11, 12, 13, 32, 160, 5760, 8232, 8233, 8239, 8287, 12288, 65279}
               \<or> (8192 \<le> c \<and> c \<le> 8202))"

definition trim :: "jsstring \<Rightarrow> jsstring" where
  "trim s = rev (dropWhile isWhite (rev (dropWhile isWhite s)))"

text \<open>
  The regular expressions of the parser are alternations of literals, some with one
  \<open>.*\<close> inside, all with the \<open>i\<close> flag: a literal matches where its code units and
  the text's agree after canonicalization; \<open>.\<close> is any code unit but a line terminator.
  \<open>regexTest\<close> is \<open>/a|b|.../i.test(s)\<close>.
\<close>

datatype alt = Lit jsstring | Gap jsstring jsstring

definition isLineTerminator :: "nat \<Rightarrow> bool" where
  "isLineTerminator c = (c = 10 \<or> c = 13 \<or> c = 8232 \<or> c = 8233)"

definition litAt :: "(nat \<Rightarrow> nat) \<Rightarrow> jsstring \<Rightarrow> jsstring \<Rightarrow> bool" where
  "litAt cf p s = (length p \<le> length s \<and> map cf (take (length p) s) = map cf p)"

fun litSearch :: "(nat \<Rightarrow> nat) \<Rightarrow> jsstring \<Rightarrow> jsstring \<Rightarrow> bool" where
  "litSearch cf p [] = litAt cf p []"
| "litSearch cf p (x # xs) = (litAt cf p (x # xs) \<or> litSearch cf p xs)"

fun gapThen :: "(nat \<Rightarrow> nat) \<Rightarrow> jsstring \<Rightarrow> jsstring \<Rightarrow> bool" where
  "gapThen cf q [] = litAt cf q []"
| "gapThen cf q (x # xs) = (litAt cf q (x # xs) \<or> (if isLineTerminator x then False else gapThen cf q xs))"

fun gapSearch :: "(nat \<Rightarrow> nat) \<Rightarrow> jsstring \<Rightarrow> jsstring \<Rightarrow> jsstring \<Rightarrow> bool" where
  "gapSearch cf p q [] = (litAt cf p [] \<and> gapThen cf q [])"
| "gapSearch cf p q (x # xs) =
     ((litAt cf p (x # xs) \<and> gapThen cf q (drop (length p) (x # xs))) \<or> gapSearch cf p q xs)"

fun altTest :: "host \<Rightarrow> alt \<Rightarrow> jsstring \<Rightarrow> bool" where
  "altTest rt (Lit p) s = litSearch (canonicalize rt) p s"
| "altTest rt (Gap p q) s = gapSearch (canonicalize rt) p q s"

definition regexTest :: "host \<Rightarrow> alt list \<Rightarrow> jsstring \<Rightarrow> bool" where
  "regexTest rt alts s = list_ex (\<lambda>a. altTest rt a s) alts"

text \<open>\<open>/^\d+$/.test(s)\<close>\<close>

definition allDigits :: "jsstring \<Rightarrow> bool" where
  "allDigits s = (s \<noteq> [] \<and> list_all (\<lambda>c. 48 \<le> c \<and> c \<le> 57) s)"

text \<open>The character class of the name guess, U+0623 to U+064A: some code unit in the Arabic letter range.\<close>

definition hasArabicLetter :: "jsstring \<Rightarrow> bool" where
  "hasArabicLetter s = list_ex (\<lambda>c. 1571 \<le> c \<and> c \<le> 1610) s"

subsection \<open>The literals of the source\<close>

text \<open>The words outside ASCII, by their code units (transliterated in the names).\<close>

definition ar_raqm :: jsstring where
  \<comment> \<open>number\<close>
  "ar_raqm = [1585, 1602, 1605]"

definition ar_kud :: jsstring where
  \<comment> \<open>code\<close>
  "ar_kud = [1603, 1608, 1583]"

definition ar_raqm_aljulus :: jsstring where
  \<comment> \<open>seat number\<close>
  "ar_raqm_aljulus = [1585, 1602, 1605, 32, 1575, 1604, 1580, 1604, 1608, 1587]"

definition ar_ism :: jsstring where
  \<comment> \<open>name\<close>
  "ar_ism = [1575, 1587, 1605]"

definition ar_altalib :: jsstring where
  \<comment> \<open>the student\<close>
  "ar_altalib = [1575, 1604, 1591, 1575, 1604, 1576]"

definition ar_talib :: jsstring where
  \<comment> \<open>student\<close>
  "ar_talib = [1591, 1575, 1604, 1576]"

definition ar_ism_altalib :: jsstring where
  \<comment> \<open>name of the student\<close>
  "ar_ism_altalib = [1575, 1587, 1605, 32, 1575, 1604, 1591, 1575, 1604, 1576]"

definition ar_ism_talib :: jsstring where
  \<comment> \<open>name of a student\<close>
  "ar_ism_talib = [1575, 1587, 1605, 32, 1591, 1575, 1604, 1576]"

definition ar_kud_altalib :: jsstring where
  \<comment> \<open>code of the student\<close>
  "ar_kud_altalib = [1603, 1608, 1583, 32, 1575, 1604, 1591, 1575, 1604, 1576]"

definition ar_raqm_altalib :: jsstring where
  \<comment> \<open>number of the student\<close>
  "ar_raqm_altalib = [1585, 1602, 1605, 32, 1575, 1604, 1591, 1575, 1604, 1576]"

definition ar_daraja :: jsstring where
  \<comment> \<open>grade\<close>
  "ar_daraja = [1583, 1585, 1580, 1577]"

definition ar_imtihan :: jsstring where
  \<comment> \<open>examination\<close>
  "ar_imtihan = [1575, 1605, 1578, 1581, 1575, 1606]"

definition ar_natija :: jsstring where
  \<comment> \<open>result\<close>
  "ar_natija = [1606, 1578, 1610, 1580, 1577]"

definition ar_majmu :: jsstring where
  \<comment> \<open>total\<close>
  "ar_majmu = [1605, 1580, 1605, 1608, 1593]"

definition ar_ikhtibar :: jsstring where
  \<comment> \<open>test\<close>
  "ar_ikhtibar = [1575, 1582, 1578, 1576, 1575, 1585]"

definition ar_mim :: jsstring where
  \<comment> \<open>the letter mim\<close>
  "ar_mim = [1605]"

definition ar_ta :: jsstring where
  \<comment> \<open>the letter ta\<close>
  "ar_ta = [1578]"

definition ar_almajmu :: jsstring where
  \<comment> \<open>the total\<close>
  "ar_almajmu = [1575, 1604, 1605, 1580, 1605, 1608, 1593]"

definition ar_alnihai :: jsstring where
  \<comment> \<open>the final\<close>
  "ar_alnihai = [1575, 1604, 1606, 1607, 1575, 1574, 1610]"

definition ar_aldaraja :: jsstring where
  \<comment> \<open>the grade\<close>
  "ar_aldaraja = [1575, 1604, 1583, 1585, 1580, 1577]"

definition ru_kod :: jsstring where
  \<comment> \<open>Russian: code\<close>
  "ru_kod = [1082, 1086, 1076]"

definition ru_imya :: jsstring where
  \<comment> \<open>Russian: name\<close>
  "ru_imya = [1080, 1084, 1103]"

definition ru_otsenka :: jsstring where
  \<comment> \<open>Russian: mark\<close>
  "ru_otsenka = [1086, 1094, 1077, 1085, 1082, 1072]"

definition zh_bianhao :: jsstring where
  \<comment> \<open>Chinese: number\<close>
  "zh_bianhao = [32534, 21495]"

definition zh_xingming :: jsstring where
  \<comment> \<open>Chinese: name\<close>
  "zh_xingming = [22995, 21517]"

definition zh_chengji :: jsstring where
  \<comment> \<open>Chinese: result\<close>
  "zh_chengji = [25104, 32489]"

definition es_numero :: jsstring where
  \<comment> \<open>Spanish: number\<close>
  "es_numero = [110, 250, 109, 101, 114, 111]"

definition es_calificacion :: jsstring where
  \<comment> \<open>Spanish: mark\<close>
  "es_calificacion = [99, 97, 108, 105, 102, 105, 99, 97, 99, 105, 243, 110]"

subsection \<open>Worksheets\<close>

text \<open>
  A worksheet of the xlsx library: its range \<open>!ref\<close> (already decoded; absent on a sheet
  without cells) and its cell objects by row and column, each with its value \<open>v\<close>
  (\<open>None\<close> for a cell object without a value).
\<close>

record cellRange =
  s_r :: nat
  s_c :: nat
  e_r :: nat
  e_c :: nat

record worksheet =
  ref :: "cellRange option"
  cells :: "nat \<times> nat \<rightharpoonup> jsval option"

record workbook =
  SheetNames :: "jsstring list"
  Sheets :: "jsstring \<rightharpoonup> worksheet"

text \<open>
  The library calls the parser makes: \<open>XLSX.utils.sheet_to_json\<close> and \<open>XLSX.read\<close>
  (\<open>None\<close> when it throws on a payload it cannot read).
\<close>

record xlsx =
  sheet_to_json :: "worksheet \<Rightarrow> row list"
  xlsx_read :: "nat list \<Rightarrow> workbook option"

text \<open>\<open>XLSX.utils.decode_range(worksheet["!ref"] || "A1")\<close>\<close>

definition sheetRange :: "worksheet \<Rightarrow> cellRange" where
  "sheetRange ws = (case ref ws of None \<Rightarrow> \<lparr>s_r = 0, s_c = 0, e_r = 0, e_c = 0\<rparr> | Some r \<Rightarrow> r)"

definition rowsOf :: "cellRange \<Rightarrow> nat list" where
  "rowsOf rg = [s_r rg ..< Suc (e_r rg)]"

definition colsOf :: "cellRange \<Rightarrow> nat list" where
  "colsOf rg = [s_c rg ..< Suc (e_c rg)]"

text \<open>The value of the cell at a position, \<open>None\<close> when there is no cell or no value.\<close>

definition cellV :: "worksheet \<Rightarrow> nat \<Rightarrow> nat \<Rightarrow> jsval option" where
  "cellV ws r c = (case cells ws (r, c) of None \<Rightarrow> None | Some v \<Rightarrow> v)"

text \<open>The label of a blank header cell, \<open>Column\<close> and the column's number from one.\<close>

definition columnLabel :: "host \<Rightarrow> nat \<Rightarrow> jsstring" where
  "columnLabel rt c = ascii ''Column '' @ numToString rt (Fin (of_nat (c + 1)))"

text \<open>Rows are built by assignment: an existing key keeps its place.\<close>

fun obj_set :: "row \<Rightarrow> jsstring \<Rightarrow> jsval \<Rightarrow> row" where
  "obj_set [] k v = [(k, v)]"
| "obj_set ((k', v') # r) k v = (if k' = k then (k, v) # r else (k', v') # obj_set r k v)"

text \<open>
  The keys of a row in insertion order. They are read where their order does not show:
  the number of keys in \<open>extractStudents\<close>, and the copy of a row key by key.
\<close>

definition objectKeys :: "row \<Rightarrow> jsstring list" where
  "objectKeys r = map fst r"

text \<open>
  A key that is an array index: the decimal numeral, without a leading zero, of a number
  below \<open>2^32 - 1\<close>.
\<close>

definition decimalValue :: "jsstring \<Rightarrow> nat" where
  "decimalValue s = foldl (\<lambda>a d. 10 * a + (d - 48)) 0 s"

definition isArrayIndex :: "jsstring \<Rightarrow> bool" where
  "isArrayIndex s =
     (s \<noteq> [] \<and> list_all (\<lambda>c. 48 \<le> c \<and> c \<le> 57) s \<and> (hd s \<noteq> 48 \<or> length s = 1)
      \<and> decimalValue s < 4294967295)"

text \<open>
  \<open>Object.keys(row)\<close> in the order the engine lists them: the keys that are array
  indices in ascending order, then the other keys in insertion order.
\<close>

definition ownKeys :: "row \<Rightarrow> jsstring list" where
  "ownKeys r =
     sort_key decimalValue (filter isArrayIndex (map fst r))
       @ filter (\<lambda>k. \<not> isArrayIndex k) (map fst r)"

subsection \<open>extractSheetHeaders\<close>

definition arabicHeaderPatterns :: "jsstring list" where
  "arabicHeaderPatterns =
     [ar_raqm_aljulus, ar_ism_altalib, ar_kud_altalib, ar_raqm_altalib,
      ar_ism, ar_raqm, ar_kud, ar_talib, ar_daraja, ar_imtihan, ar_natija, ar_majmu,
      ar_ikhtibar, ar_mim, ar_ta, ar_almajmu, ar_alnihai, ar_aldaraja]"

definition hasArabicPattern :: "host \<Rightarrow> jsstring \<Rightarrow> bool" where
  "hasArabicPattern rt cellValue =
     list_ex (\<lambda>pattern. includes_str (toLowerCase rt cellValue) (toLowerCase rt pattern)
                        \<or> includes_str cellValue pattern) arabicHeaderPatterns"

text \<open>The trimmed text of a cell that has a value and is not blank.\<close>

definition cellText :: "host \<Rightarrow> worksheet \<Rightarrow> nat \<Rightarrow> nat \<Rightarrow> jsstring option" where
  "cellText rt ws r c =
     (case cellV ws r c of
        None \<Rightarrow> None
      | Some v \<Rightarrow> (let cellValue = trim (toStr rt (Some v))
                   in if cellValue \<noteq> [] then Some cellValue else None))"

text \<open>What one row of the scan yields: \<open>rowHeaders\<close>, \<open>arabicMatchCount\<close>, \<open>hasContent\<close>.\<close>

definition rowHeaders :: "host \<Rightarrow> worksheet \<Rightarrow> nat \<Rightarrow> jsstring list" where
  "rowHeaders rt ws r =
     map (\<lambda>c. case cellText rt ws r c of Some t \<Rightarrow> t | None \<Rightarrow> columnLabel rt c)
       (colsOf (sheetRange ws))"

definition arabicMatchCount :: "host \<Rightarrow> worksheet \<Rightarrow> nat \<Rightarrow> nat" where
  "arabicMatchCount rt ws r =
     length (filter (\<lambda>c. case cellText rt ws r c of Some t \<Rightarrow> hasArabicPattern rt t | None \<Rightarrow> False)
               (colsOf (sheetRange ws)))"

definition hasContent :: "host \<Rightarrow> worksheet \<Rightarrow> nat \<Rightarrow> bool" where
  "hasContent rt ws r = list_ex (\<lambda>c. cellText rt ws r c \<noteq> None) (colsOf (sheetRange ws))"

text \<open>The running best of the scan: \<open>headerRowIndex\<close>, \<open>bestHeaderRow\<close>, \<open>bestMatchCount\<close>.\<close>

record bestRow =
  headerRowIndex :: int
  bestHeaderRow :: "jsstring list"
  bestMatchCount :: nat

definition scanStep :: "host \<Rightarrow> worksheet \<Rightarrow> nat \<Rightarrow> bestRow \<Rightarrow> bestRow" where
  "scanStep rt ws r b =
     (if hasContent rt ws r \<and> arabicMatchCount rt ws r > 0
         \<and> arabicMatchCount rt ws r > bestMatchCount b
      then \<lparr>headerRowIndex = int r, bestHeaderRow = rowHeaders rt ws r,
            bestMatchCount = arabicMatchCount rt ws r\<rparr>
      else b)"

definition headerRowScan :: "host \<Rightarrow> worksheet \<Rightarrow> bestRow" where
  "headerRowScan rt ws =
     fold (scanStep rt ws) (rowsOf (sheetRange ws))
       \<lparr>headerRowIndex = -1, bestHeaderRow = [], bestMatchCount = 0\<rparr>"

definition extractSheetHeaders :: "host \<Rightarrow> worksheet \<Rightarrow> jsstring list" where
  "extractSheetHeaders rt ws =
     (let rg = sheetRange ws
      in if s_r rg > e_r rg \<or> s_c rg > e_c rg then []
         else (let b = headerRowScan rt ws
               in if headerRowIndex b \<ge> 0 \<and> length (bestHeaderRow b) > 0 then bestHeaderRow b
                  else rowHeaders rt ws (s_r rg)))"

subsection \<open>processArabicExcelSheet\<close>

text \<open>The two keyword tests of the first pass, on \<open>String(cell.v).toLowerCase()\<close>.\<close>

definition nameKeyword :: "host \<Rightarrow> jsval \<Rightarrow> bool" where
  "nameKeyword rt v =
     (let t = toLowerCase rt (toStr rt (Some v))
      in includes_str t ar_ism_altalib \<or> includes_str t ar_ism_talib)"

definition idKeyword :: "host \<Rightarrow> jsval \<Rightarrow> bool" where
  "idKeyword rt v =
     (let t = toLowerCase rt (toStr rt (Some v))
      in includes_str t ar_raqm \<or> includes_str t ar_kud_altalib \<or> includes_str t ar_raqm_aljulus)"

text \<open>
  The three indices the passes maintain, \<open>-1\<close> for not found. The Boolean beside them
  in the first pass is \<open>hasHeaderInfo\<close> of the row being read.
\<close>

record found =
  hdrRow :: int
  idCol :: int
  nameCol :: int

definition headerInfoCell ::
  "host \<Rightarrow> worksheet \<Rightarrow> nat \<Rightarrow> nat \<Rightarrow> found \<times> bool \<Rightarrow> found \<times> bool" where
  "headerInfoCell rt ws r c fh =
     (if truthy (cellV ws r c) then
        (let v = the (cellV ws r c);
             fh1 = (if nameKeyword rt v then ((fst fh)\<lparr>nameCol := int c\<rparr>, True) else fh)
         in if idKeyword rt v then ((fst fh1)\<lparr>idCol := int c\<rparr>, True) else fh1)
      else fh)"

fun keywordScan :: "host \<Rightarrow> worksheet \<Rightarrow> nat list \<Rightarrow> found \<Rightarrow> found" where
  "keywordScan rt ws [] f = f"
| "keywordScan rt ws (r # rs) f =
     (let fh = fold (headerInfoCell rt ws r) (colsOf (sheetRange ws)) (f, False)
      in if snd fh then (fst fh)\<lparr>hdrRow := int r\<rparr> else keywordScan rt ws rs (fst fh))"

text \<open>The second pass: a number above 1000 with a text holding a space right of it.\<close>

definition above1000 :: "jsval option \<Rightarrow> bool" where
  "above1000 v = (case v of
                    Some (VNum (Fin q)) \<Rightarrow> q > 1000
                  | Some (VNum PosInf) \<Rightarrow> True
                  | _ \<Rightarrow> False)"

definition nameLike :: "jsval option \<Rightarrow> bool" where
  "nameLike v = (case v of Some (VStr s) \<Rightarrow> includes_str s [32] | _ \<Rightarrow> False)"

definition idNamePair :: "worksheet \<Rightarrow> nat \<Rightarrow> nat \<Rightarrow> bool" where
  "idNamePair ws r c = (above1000 (cellV ws r c) \<and> nameLike (cellV ws r (c + 1)))"

fun shapeScan :: "worksheet \<Rightarrow> nat list \<Rightarrow> found \<Rightarrow> found" where
  "shapeScan ws [] f = f"
| "shapeScan ws (r # rs) f =
     (case find (idNamePair ws r) (colsOf (sheetRange ws)) of
        None \<Rightarrow> shapeScan ws rs f
      | Some c \<Rightarrow>
          (let f1 = \<lparr>hdrRow = int r - 1, idCol = int c, nameCol = int c + 1\<rparr>
           in if hdrRow f1 \<ge> 0 then f1 else shapeScan ws rs f1))"

definition locate :: "host \<Rightarrow> worksheet \<Rightarrow> found" where
  "locate rt ws =
     (let f = keywordScan rt ws (rowsOf (sheetRange ws)) \<lparr>hdrRow = -1, idCol = -1, nameCol = -1\<rparr>
      in if hdrRow f < 0 then shapeScan ws (rowsOf (sheetRange ws)) f else f)"

text \<open>The copy of a raw row, \<open>for (const key in row) processed[key] = row[key]\<close>.\<close>

definition copyRow :: "row \<Rightarrow> row" where
  "copyRow r = fold (\<lambda>k acc. obj_set acc k (the (row_get r k))) (objectKeys r) []"

text \<open>\<open>headers[C]\<close>: the label of a column of the header row, where its cell is truthy.\<close>

definition headerAt :: "host \<Rightarrow> worksheet \<Rightarrow> nat \<Rightarrow> nat \<Rightarrow> jsstring option" where
  "headerAt rt ws h c =
     (if truthy (cellV ws h c) then Some (toStr rt (cellV ws h c)) else None)"

definition studentCell :: "host \<Rightarrow> worksheet \<Rightarrow> nat \<Rightarrow> nat \<Rightarrow> nat \<Rightarrow> row \<Rightarrow> row" where
  "studentCell rt ws h r c student =
     (case headerAt rt ws h c of
        None \<Rightarrow> student
      | Some k \<Rightarrow> if k = [] then student
                  else obj_set student k (case cellV ws r c of Some v \<Rightarrow> v | None \<Rightarrow> VStr []))"

definition studentRow :: "host \<Rightarrow> worksheet \<Rightarrow> nat \<Rightarrow> nat \<Rightarrow> row" where
  "studentRow rt ws h r = fold (studentCell rt ws h r) (colsOf (sheetRange ws)) []"

definition extractStudents :: "host \<Rightarrow> worksheet \<Rightarrow> found \<Rightarrow> row list" where
  "extractStudents rt ws f =
     (let h = nat (hdrRow f)
      in map (studentRow rt ws h)
           (filter (\<lambda>r. cells ws (r, nat (idCol f)) \<noteq> None \<and> cells ws (r, nat (nameCol f)) \<noteq> None
                        \<and> length (objectKeys (studentRow rt ws h r)) > 0)
              [h + 1 ..< Suc (e_r (sheetRange ws))]))"

definition processArabicExcelSheet :: "host \<Rightarrow> xlsx \<Rightarrow> worksheet \<Rightarrow> row list" where
  "processArabicExcelSheet rt lib ws =
     (let f = locate rt ws
      in if hdrRow f < 0 \<or> idCol f < 0 \<or> nameCol f < 0 then
           (let rawData = sheet_to_json lib ws
            in if length rawData > 0 then map copyRow rawData else [])
         else extractStudents rt ws f)"

subsection \<open>detectHeaders\<close>

definition idRegex :: "alt list" where
  "idRegex = [Lit (ascii ''id''), Lit ar_raqm, Lit ar_kud, Lit ar_raqm_aljulus, Lit ru_kod,
              Lit zh_bianhao, Lit es_numero]"

definition nameRegex :: "alt list" where
  "nameRegex = [Lit (ascii ''name''), Lit ar_ism, Lit ar_altalib, Lit (ascii ''student''),
                Lit ar_talib, Lit ru_imya, Lit zh_xingming, Lit (ascii ''nombre'')]"

definition gradePatterns :: "alt list" where
  "gradePatterns =
     [Lit (ascii ''grade''), Lit (ascii ''final''), Lit (ascii ''mark''), Lit ar_daraja,
      Lit (ascii ''total''), Lit ar_majmu, Lit ar_natija, Lit ru_otsenka, Lit zh_chengji,
      Lit es_calificacion, Lit (ascii ''quiz''), Lit (ascii ''exam''), Lit (ascii ''test''),
      Lit ar_imtihan, Lit ar_ikhtibar]"

text \<open>The first pass: the first header of each kind wins.\<close>

definition idNameStep :: "host \<Rightarrow> jsstring \<Rightarrow> jsstring \<times> jsstring \<Rightarrow> jsstring \<times> jsstring" where
  "idNameStep rt header im =
     (let headerLower = toLowerCase rt header
      in if regexTest rt idRegex headerLower \<and> fst im = [] then (header, snd im)
         else if regexTest rt nameRegex headerLower \<and> snd im = [] then (fst im, header)
         else im)"

text \<open>The second pass.\<close>

definition potentialGradeColumns ::
  "host \<Rightarrow> jsstring list \<Rightarrow> jsstring \<times> jsstring \<Rightarrow> jsstring list" where
  "potentialGradeColumns rt headers im =
     filter (\<lambda>header. (if header = fst im \<or> header = snd im then False
                        else regexTest rt gradePatterns (toLowerCase rt header))) headers"

text \<open>The guesses: a numeric or placeholder header for the id, an Arabic one for the name.\<close>

definition idGuess :: "jsstring \<Rightarrow> bool" where
  "idGuess header = (allDigits header \<or> includes_str header (ascii ''__EMPTY''))"

definition detectHeaders :: "host \<Rightarrow> jsstring list \<Rightarrow> HeaderMapping" where
  "detectHeaders rt headers =
     (let im = fold (idNameStep rt) headers ([], []);
          potential = potentialGradeColumns rt headers im;
          grade1 = (if length potential > 0 then hd potential else []);
          columns1 = (if length potential > 1 then tl potential else [])
      in if length headers > 0 then
           (let id2 = (if fst im = []
                       then (case find idGuess headers of Some h \<Rightarrow> h | None \<Rightarrow> [])
                       else fst im);
                name2 = (if snd im = []
                         then (case find hasArabicLetter headers of Some h \<Rightarrow> h | None \<Rightarrow> [])
                         else snd im);
                fallback = ((id2 = [] \<or> name2 = []) \<and> length headers \<ge> 2);
                id3 = (if fallback \<and> id2 = [] then headers ! 0 else id2);
                name3 = (if fallback \<and> name2 = [] then headers ! 1 else name2)
            in if grade1 = [] \<and> length headers \<ge> 3 then
                 \<lparr>m_id = id3, m_name = name3, m_grade = headers ! 2,
                  gradeColumns =
                    (if length headers > 3
                     then filter (\<lambda>h. h \<noteq> id3 \<and> h \<noteq> name3) (drop 3 headers)
                     else columns1)\<rparr>
               else \<lparr>m_id = id3, m_name = name3, m_grade = grade1, gradeColumns = columns1\<rparr>)
         else \<lparr>m_id = fst im, m_name = snd im, m_grade = grade1, gradeColumns = columns1\<rparr>)"

subsection \<open>enhanceHeaderMappingForEmptySheet\<close>

definition idPatterns :: "alt list" where
  "idPatterns = [Lit (ascii ''id''), Lit ar_raqm, Lit ar_kud, Lit ar_raqm_aljulus, Lit ru_kod,
                 Lit zh_bianhao, Lit es_numero, Gap (ascii ''student'') (ascii ''id''),
                 Gap ar_talib ar_raqm]"

definition namePatterns :: "alt list" where
  "namePatterns = [Lit (ascii ''name''), Lit ar_ism, Lit ar_altalib, Lit (ascii ''student''),
                   Lit ar_talib, Lit ru_imya, Lit zh_xingming, Lit (ascii ''nombre''),
                   Gap ar_ism ar_talib, Gap ar_talib ar_ism]"

definition gradePatternsEmpty :: "alt list" where
  "gradePatternsEmpty = gradePatterns @ [Gap ar_daraja ar_imtihan, Gap ar_imtihan ar_daraja]"

definition enhanceStep :: "host \<Rightarrow> jsstring \<Rightarrow> HeaderMapping \<Rightarrow> HeaderMapping" where
  "enhanceStep rt header m =
     (let headerLower = toLowerCase rt header
      in if regexTest rt idPatterns headerLower \<and> m_id m = [] then m\<lparr>m_id := header\<rparr>
         else if regexTest rt namePatterns headerLower \<and> m_name m = [] then m\<lparr>m_name := header\<rparr>
         else if regexTest rt gradePatternsEmpty headerLower then
           (if m_grade m = [] then m\<lparr>m_grade := header\<rparr>
            else m\<lparr>gradeColumns := gradeColumns m @ [header]\<rparr>)
         else m)"

definition enhanceHeaderMappingForEmptySheet ::
  "host \<Rightarrow> jsstring list \<Rightarrow> HeaderMapping option \<Rightarrow> HeaderMapping option" where
  "enhanceHeaderMappingForEmptySheet rt emptySheetHeaders globalPatterns =
     (if globalPatterns = None \<or> length emptySheetHeaders = 0 then None
      else
        (let m = fold (enhanceStep rt) emptySheetHeaders
                   \<lparr>m_id = [], m_name = [], m_grade = [], gradeColumns = []\<rparr>
         in if m_id m = [] \<and> m_name m = [] \<and> m_grade m = [] then
              (if length emptySheetHeaders \<ge> 2 then
                 (let m2 = m\<lparr>m_id := emptySheetHeaders ! 0, m_name := emptySheetHeaders ! 1\<rparr>
                  in if length emptySheetHeaders \<ge> 3 then
                       (let m3 = m2\<lparr>m_grade := emptySheetHeaders ! 2\<rparr>
                        in if length emptySheetHeaders > 3
                           then Some (m3\<lparr>gradeColumns := drop 3 emptySheetHeaders\<rparr>)
                           else Some m3)
                     else Some m2)
               else Some m)
            else Some m))"

subsection \<open>parseExcelFile\<close>

text \<open>
  The file handed to the parser: its size, its name, and what the \<open>FileReader\<close> delivers
  (\<open>None\<close> when reading fails).
\<close>

record jsFile =
  fileSize :: nat
  fileName :: jsstring
  fileBytes :: "nat list option"

record Sheet =
  sheetName :: jsstring
  sheetData :: "row list"
  sheetHeaders :: "jsstring list"
  enhancedMapping :: "HeaderMapping option"

record ProcessedExcelData =
  sheets :: "Sheet list"
  currentSheet :: "Sheet option"
  dataHeaders :: "jsstring list"
  dataMapping :: "HeaderMapping option"

text \<open>The rejections of the promise, by their messages.\<close>

datatype parseError =
  EmptyFile | InvalidFormat | NoSheets | ParseFailed | ReadFailed

text \<open>The lower-cased part of the name after its last dot (the whole name without one).\<close>

definition fileExtension :: "host \<Rightarrow> jsstring \<Rightarrow> jsstring" where
  "fileExtension rt name = toLowerCase rt (rev (takeWhile (\<lambda>c. c \<noteq> 46) (rev name)))"

text \<open>
  The first pass over one sheet name. A name without a worksheet makes both helpers
  throw inside their own \<open>try\<close>, which yields no rows and no headers.
\<close>

definition readSheet :: "host \<Rightarrow> xlsx \<Rightarrow> workbook \<Rightarrow> jsstring \<Rightarrow> Sheet" where
  "readSheet rt lib wb n =
     (case Sheets wb n of
        None \<Rightarrow> \<lparr>sheetName = n, sheetData = [], sheetHeaders = [], enhancedMapping = None\<rparr>
      | Some ws \<Rightarrow> \<lparr>sheetName = n, sheetData = processArabicExcelSheet rt lib ws,
                    sheetHeaders = extractSheetHeaders rt ws, enhancedMapping = None\<rparr>)"

definition enhanceSheet :: "host \<Rightarrow> HeaderMapping option \<Rightarrow> Sheet \<Rightarrow> Sheet" where
  "enhanceSheet rt globalHeaderPatterns sheet =
     (if length (sheetData sheet) = 0 \<and> length (sheetHeaders sheet) > 0 then
        (case enhanceHeaderMappingForEmptySheet rt (sheetHeaders sheet) globalHeaderPatterns of
           None \<Rightarrow> sheet
         | Some m \<Rightarrow> sheet\<lparr>enhancedMapping := Some m\<rparr>)
      else sheet)"

definition processWorkbook :: "host \<Rightarrow> xlsx \<Rightarrow> workbook \<Rightarrow> parseError + ProcessedExcelData" where
  "processWorkbook rt lib wb =
     (if length (SheetNames wb) = 0 then Inl NoSheets
      else
        (let sheets1 = map (readSheet rt lib wb) (SheetNames wb);
             nonEmpty = filter (\<lambda>sheet. length (sheetData sheet) > 0) sheets1;
             globalHeaderPatterns =
               (if length nonEmpty > 0
                then Some (detectHeaders rt (ownKeys (hd (sheetData (hd nonEmpty)))))
                else None);
             sheets3 = map (enhanceSheet rt globalHeaderPatterns) sheets1;
             current = (if length nonEmpty > 0 then hd nonEmpty else hd sheets3);
             headers = (if length (sheetData current) > 0 then ownKeys (hd (sheetData current))
                        else sheetHeaders current);
             m = (if length (sheetData current) = 0 \<and> enhancedMapping current \<noteq> None
                  then the (enhancedMapping current)
                  else detectHeaders rt headers)
         in Inr \<lparr>sheets = sheets3, currentSheet = Some current, dataHeaders = headers,
                 dataMapping = Some m\<rparr>))"

definition parseExcelFile :: "host \<Rightarrow> xlsx \<Rightarrow> jsFile \<Rightarrow> parseError + ProcessedExcelData" where
  "parseExcelFile rt lib file =
     (if fileSize file \<le> 0 then Inl EmptyFile
      else if fileExtension rt (fileName file) \<noteq> ascii ''xlsx''
              \<and> fileExtension rt (fileName file) \<noteq> ascii ''xls'' then Inl InvalidFormat
      else (case fileBytes file of
              None \<Rightarrow> Inl ReadFailed
            | Some bytes \<Rightarrow>
                (case xlsx_read lib bytes of
                   None \<Rightarrow> Inl ParseFailed
                 | Some wb \<Rightarrow> processWorkbook rt lib wb)))"

section \<open>Concrete inputs\<close>

text \<open>
  A host to evaluate the model on concrete inputs. It agrees with a JavaScript engine on
  the texts used below: case mapping of the ASCII letters (Arabic has no case), and
  \<open>parseFloat\<close> on a text that starts with an unsigned run of decimal digits without
  fraction or exponent, or that starts with a letter. \<open>numToString\<close> prints the natural
  numbers.
\<close>

definition lowerUnit :: "nat \<Rightarrow> nat" where
  "lowerUnit c = (if 65 \<le> c \<and> c \<le> 90 then c + 32 else c)"

definition upperUnit :: "nat \<Rightarrow> nat" where
  "upperUnit c = (if 97 \<le> c \<and> c \<le> 122 then c - 32 else c)"

definition isDigit :: "nat \<Rightarrow> bool" where
  "isDigit c = (48 \<le> c \<and> c \<le> 57)"

definition digitsValue :: "nat list \<Rightarrow> nat" where
  "digitsValue ds = foldl (\<lambda>a d. 10 * a + (d - 48)) 0 ds"

definition parseDigits :: "jsstring \<Rightarrow> jsnum" where
  "parseDigits s =
     (let ds = takeWhile isDigit s in if ds = [] then NaN else Fin (of_nat (digitsValue ds)))"

fun natDigits :: "nat \<Rightarrow> nat \<Rightarrow> jsstring" where
  "natDigits 0 n = []"
| "natDigits (Suc fuel) n = (if n < 10 then [48 + n] else natDigits fuel (n div 10) @ [48 + n mod 10])"

definition printNat :: "jsnum \<Rightarrow> jsstring" where
  "printNat x = (case x of
                   Fin q \<Rightarrow> (if q = of_nat (nat (floor q)) then natDigits (Suc (nat (floor q))) (nat (floor q)) else [])
                 | PosInf \<Rightarrow> ascii ''Infinity''
                 | NegInf \<Rightarrow> ascii ''-Infinity''
                 | NaN \<Rightarrow> ascii ''NaN'')"

definition host0 :: host where
  "host0 = \<lparr>toLowerCase = map lowerUnit, canonicalize = upperUnit,
            numToString = printNat, parseFloat = parseDigits\<rparr>"

text \<open>One student, \<open>s1\<close>, with the grade columns \<open>g\<close> and \<open>h\<close>; the sheet gives her 0 and 60.\<close>

definition m0 :: HeaderMapping where
  "m0 = \<lparr>m_id = ascii ''id'', m_name = ascii ''name'', m_grade = ascii ''g'',
         gradeColumns = [ascii ''h'']\<rparr>"

definition ps0 :: GradeTableProps where
  "ps0 = \<lparr>students = [[(ascii ''id'', VStr (ascii ''s1'')), (ascii ''name'', VStr (ascii ''Ann'')),
                       (ascii ''g'', VNum (Fin 0)), (ascii ''h'', VNum (Fin 60))]],
          mapping = m0\<rparr>"

definition st0 :: GradeTableState where
  "st0 = initialState host0 ps0 None"

text \<open>Fifty-one commits to one cell, the texts 1 and 2 in turn, so that each changes it.\<close>

definition commitsN :: "nat \<Rightarrow> event list" where
  "commitsN n = map (\<lambda>k. Commit (ascii ''s1'') (ascii ''g'')
                            (if even k then ascii ''1'' else ascii ''2'') k) [0..<n]"

text \<open>
  A stand-in for the library, to be read on two payloads only. The four bytes of the
  signature of a ZIP archive (\<open>PK\<close>, 3, 4) and nothing more: the library opens the
  payload as an archive, finds no workbook in it, and \<open>XLSX.read\<close> throws. The three
  bytes 1, 2, 3: they start with no signature the library knows, so it reads them as
  plain text and returns a workbook of one sheet, \<open>Sheet1\<close>, with the text in its
  first cell; \<open>sheet_to_json\<close> takes that row for the header row and finds no row
  below it.
\<close>

definition textSheet :: "nat list \<Rightarrow> worksheet" where
  "textSheet bytes = \<lparr>ref = Some \<lparr>s_r = 0, s_c = 0, e_r = 0, e_c = 0\<rparr>,
                      cells = [(0, 0) \<mapsto> Some (VStr bytes)]\<rparr>"

definition libText :: xlsx where
  "libText = \<lparr>sheet_to_json = (\<lambda>ws. []),
              xlsx_read = (\<lambda>bytes. if take 4 bytes = [80, 75, 3, 4] then None
                                    else Some \<lparr>SheetNames = [ascii ''Sheet1''],
                                               Sheets = [ascii ''Sheet1'' \<mapsto> textSheet bytes]\<rparr>)\<rparr>"

text \<open>Scenario B of the specification.\<close>

definition scenarioB :: "jsstring list" where
  "scenarioB = [ascii ''Column 1'', ascii ''Column 2'', ascii ''Column 3'', ascii ''Column 4'']"

text \<open>
  A sheet whose first row has one cell with the word for number, and whose second row
  has the student-number and student-name headers.
\<close>

definition wsTwo :: worksheet where
  "wsTwo = \<lparr>ref = Some \<lparr>s_r = 0, s_c = 0, e_r = 1, e_c = 1\<rparr>,
            cells = [(0, 0) \<mapsto> Some (VStr ar_raqm),
                     (1, 0) \<mapsto> Some (VStr ar_raqm_altalib),
                     (1, 1) \<mapsto> Some (VStr ar_ism_altalib)]\<rparr>"

text \<open>A sheet without any keyword or large number, and the rows the library reads from it.\<close>

definition wsPlain :: worksheet where
  "wsPlain = \<lparr>ref = Some \<lparr>s_r = 0, s_c = 0, e_r = 1, e_c = 1\<rparr>,
              cells = [(0, 0) \<mapsto> Some (VStr (ascii ''a'')),
                       (0, 1) \<mapsto> Some (VStr (ascii ''b'')),
                       (1, 0) \<mapsto> Some (VNum (Fin 5)),
                       (1, 1) \<mapsto> Some (VStr (ascii ''x y''))]\<rparr>"

definition libPlain :: xlsx where
  "libPlain = \<lparr>sheet_to_json = (\<lambda>ws. [[(ascii ''a'', VNum (Fin 5)), (ascii ''b'', VStr (ascii ''x y''))]]),
               xlsx_read = (\<lambda>bytes. None)\<rparr>"








section \<open>Notions of the specification\<close>

text \<open>
  The causes of a parse error: a name whose extension is not on the allow-list, a
  payload on which the \<open>FileReader\<close> fails or \<open>XLSX.read\<close> throws, a workbook
  without sheet names.
\<close>

definition allowedExtension :: "host \<Rightarrow> jsFile \<Rightarrow> bool" where
  "allowedExtension rt file =
     (fileExtension rt (fileName file) \<in> {ascii ''xlsx'', ascii ''xls''})"

definition unreadable :: "xlsx \<Rightarrow> jsFile \<Rightarrow> bool" where
  "unreadable lib file =
     (case fileBytes file of None \<Rightarrow> True | Some bytes \<Rightarrow> xlsx_read lib bytes = None)"

definition zeroSheets :: "xlsx \<Rightarrow> jsFile \<Rightarrow> bool" where
  "zeroSheets lib file =
     (case fileBytes file of
        None \<Rightarrow> False
      | Some bytes \<Rightarrow> (case xlsx_read lib bytes of None \<Rightarrow> False | Some wb \<Rightarrow> SheetNames wb = []))"

text \<open>
  A payload that starts as one of the containers of a workbook: with the signature of a
  ZIP archive (an \<open>.xlsx\<close> file) or with that of a compound file (an \<open>.xls\<close> file).
\<close>

definition spreadsheetContainer :: "nat list \<Rightarrow> bool" where
  "spreadsheetContainer bytes =
     (take 4 bytes = [80, 75, 3, 4] \<or> take 8 bytes = [208, 207, 17, 224, 161, 177, 26, 225])"

text \<open>
  A header on which no identifier, name or grade pattern and no content guess matches.
\<close>

definition unmatched :: "host \<Rightarrow> jsstring \<Rightarrow> bool" where
  "unmatched rt h =
     (\<not> regexTest rt idRegex (toLowerCase rt h) \<and> \<not> regexTest rt nameRegex (toLowerCase rt h)
      \<and> \<not> regexTest rt gradePatterns (toLowerCase rt h) \<and> \<not> idGuess h \<and> \<not> hasArabicLetter h)"

text \<open>
  A cell that carries header information for the first pass of \<open>processArabicExcelSheet\<close>:
  a truthy value holding a name keyword or an identifier keyword; the rows with such a
  cell, and the number of such cells in a row.
\<close>

definition headerInfo :: "host \<Rightarrow> worksheet \<Rightarrow> nat \<Rightarrow> nat \<Rightarrow> bool" where
  "headerInfo rt ws r c =
     (truthy (cellV ws r c)
      \<and> (nameKeyword rt (the (cellV ws r c)) \<or> idKeyword rt (the (cellV ws r c))))"

definition rowHasInfo :: "host \<Rightarrow> worksheet \<Rightarrow> nat \<Rightarrow> bool" where
  "rowHasInfo rt ws r = list_ex (headerInfo rt ws r) (colsOf (sheetRange ws))"

definition headerInfoCount :: "host \<Rightarrow> worksheet \<Rightarrow> nat \<Rightarrow> nat" where
  "headerInfoCount rt ws r = length (filter (headerInfo rt ws r) (colsOf (sheetRange ws)))"

text \<open>
  The row the specification selects: the count is the highest of all rows and above
  zero, and among rows of equal count the first one met.
\<close>

definition firstBest :: "(nat \<Rightarrow> nat) \<Rightarrow> nat list \<Rightarrow> nat option" where
  "firstBest cnt rows =
     (let m = fold max (map cnt rows) 0 in if m = 0 then None else find (\<lambda>r. cnt r = m) rows)"

text \<open>Neither pass finds anything: no row with header information, no identifier and name pair.\<close>

definition notFound :: "host \<Rightarrow> worksheet \<Rightarrow> bool" where
  "notFound rt ws =
     (\<not> list_ex (rowHasInfo rt ws) (rowsOf (sheetRange ws))
      \<and> \<not> list_ex (\<lambda>r. list_ex (idNamePair ws r) (colsOf (sheetRange ws))) (rowsOf (sheetRange ws)))"











section \<open>Properties of the grade table\<close>

lemma validateGrade_iff:
  "validateGrade rt v = (v = [] \<or> parseFloat rt v \<noteq> NaN)"
  by (simp add: validateGrade_def)


text \<open>
  C4. \<open>commitEdit\<close> succeeds exactly when the text is empty or \<open>parseFloat\<close> reads a
  number from it; on any other text it reports the invalid grade and changes nothing:
  the store, the history and the cursor are as before and the cell stays open with the
  text typed.
\<close>

theorem commitEdit_validation:
  "(fst (commitEdit rt ps now sid col raw st) \<noteq> InvalidGrade)
     = (raw = [] \<or> parseFloat rt raw \<noteq> NaN)
   \<and> (fst (commitEdit rt ps now sid col raw st) = InvalidGrade \<longrightarrow>
        snd (commitEdit rt ps now sid col raw st) = handleGradeChange raw st
        \<and> grades (snd (commitEdit rt ps now sid col raw st)) = grades st
        \<and> editHistory (snd (commitEdit rt ps now sid col raw st)) = editHistory st
        \<and> currentHistoryIndex (snd (commitEdit rt ps now sid col raw st)) = currentHistoryIndex st
        \<and> editingCell (snd (commitEdit rt ps now sid col raw st)) = editingCell st)"
  by (simp add: commitEdit_def saveGrade_def handleGradeChange_def validateGrade_def Let_def)

theorem commitEdit_validation_witness:
  "fst (commitEdit host0 ps0 7 (ascii ''s1'') (ascii ''g'') (ascii ''abc'') st0) = InvalidGrade
   \<and> grades (snd (commitEdit host0 ps0 7 (ascii ''s1'') (ascii ''g'') (ascii ''abc'') st0))
       = grades st0
   \<and> fst (commitEdit host0 ps0 7 (ascii ''s1'') (ascii ''g'') (ascii ''85'') st0) \<noteq> InvalidGrade
   \<and> fst (commitEdit host0 ps0 7 (ascii ''s1'') (ascii ''g'') [] st0) \<noteq> InvalidGrade"
  using commitEdit_validation [of host0 ps0 7 "ascii ''s1''" "ascii ''g''" "ascii ''abc''" st0]
    commitEdit_validation [of host0 ps0 7 "ascii ''s1''" "ascii ''g''" "ascii ''85''" st0]
    commitEdit_validation [of host0 ps0 7 "ascii ''s1''" "ascii ''g''" "[]" st0]
  by (simp add: host0_def parseDigits_def isDigit_def ascii_def digitsValue_def
      handleGradeChange_def)


text \<open>
  C7. A commit whose new value equals the cell's value is meant to be dropped
  (\<open>Don't save if no change\<close>). The comparison reads the old value through \<open>|| ""\<close>,
  so a cell that holds the number 0 reads as the empty text: committing 0 to it is
  recorded as a change from the empty text to 0, an entry is appended and the cursor
  moves, while the stored value stays 0.
\<close>

theorem commit_zero_on_zero_is_recorded:
  "cell (grades st0) (ascii ''s1'') (ascii ''g'') = Some (VNum (Fin 0))
   \<and> editHistory st0 = [] \<and> currentHistoryIndex st0 = -1
   \<and> commitEdit host0 ps0 1 (ascii ''s1'') (ascii ''g'') (ascii ''0'') st0
       = (GradeUpdated,
          st0\<lparr>grades := setCell (grades st0) (ascii ''s1'') (ascii ''g'') (VNum (Fin 0)),
              tempGrade := ascii ''0'',
              editHistory := [\<lparr>studentId = ascii ''s1'', column = ascii ''g'', oldValue = VStr [],
                                newValue = VNum (Fin 0), timestamp = 1,
                                studentName = Some (VStr (ascii ''Ann''))\<rparr>],
              currentHistoryIndex := 0\<rparr>)"
  by (simp add: st0_def initialState_def initialGrades_def ps0_def m0_def mergeSaved_def
      seedStudent_def seedColumn_def studentKey_def row_get_def cell_def ascii_def
      commitEdit_def saveGrade_def handleGradeChange_def validateGrade_def host0_def
      parseDigits_def isDigit_def digitsValue_def orEmpty_def strict_eq_def
      addToEditHistory_def Let_def slice0_def setCell_def)

text \<open>
  Where the old value read through \<open>|| ""\<close> is the new value, the commit is dropped:
  nothing but the open cell changes.
\<close>

lemma saveGrade_unchanged:
  "validateGrade rt (tempGrade st) \<Longrightarrow>
   strict_eq (orEmpty (cell (grades st) sid col))
     (if tempGrade st = [] then VStr [] else VNum (parseFloat rt (tempGrade st))) \<Longrightarrow>
   saveGrade rt ps now sid col st = (Unchanged, st\<lparr>editingCell := None\<rparr>)"
  by (simp add: saveGrade_def Let_def)

text \<open>
  C1. The history never holds more than 50 entries, but the cursor is set to
  \<open>min (prev + 1) (length of the history before the commit)\<close>: the commit that evicts
  the oldest entry leaves 50 entries and the cursor at 50, one past the last entry, and
  the next undo reads an entry that is not there.
\<close>

theorem cursor_past_history_after_51_commits:
  "(let st = run host0 ps0 (commitsN 51) st0
    in length (editHistory st) = 50
       \<and> currentHistoryIndex st = 50
       \<and> nth_opt (editHistory st) (currentHistoryIndex st) = None
       \<and> fst (handleUndo st) = TypeError)"
  by code_simp

lemma addToEditHistory_length:
  "length (editHistory (addToEditHistory rt ps now sid col old new st)) \<le> 50"
  by (simp add: addToEditHistory_def Let_def)

lemma addToEditHistory_cursor:
  "currentHistoryIndex st = int (length (editHistory st)) - 1 \<Longrightarrow>
   length (editHistory st) < 50 \<Longrightarrow>
   currentHistoryIndex (addToEditHistory rt ps now sid col old new st)
     = int (length (editHistory (addToEditHistory rt ps now sid col old new st))) - 1"
  by (simp add: addToEditHistory_def Let_def slice0_def)

lemma addToEditHistory_evicting:
  "currentHistoryIndex st = 49 \<Longrightarrow> length (editHistory st) = 50 \<Longrightarrow>
   length (editHistory (addToEditHistory rt ps now sid col old new st)) = 50
   \<and> currentHistoryIndex (addToEditHistory rt ps now sid col old new st) = 50"
  by (simp add: addToEditHistory_def Let_def slice0_def)

text \<open>
  C3. Undo writes the entry's old value, and the old value of an entry is the cell's
  value read through \<open>|| ""\<close>. After the commits 0 and 5 to one cell and one undo, the
  entry of the first commit is at the cursor and the cell holds the empty text, not the
  0 that entry wrote. Undo and redo from there leave the cursor where it was and the
  cell at 0.
\<close>

theorem undo_redo_changes_cell_after_zero:
  "(let S = run host0 ps0 [Commit (ascii ''s1'') (ascii ''h'') (ascii ''0'') 1,
                           Commit (ascii ''s1'') (ascii ''h'') (ascii ''5'') 2, Undo] st0;
        S' = run host0 ps0 [Undo, Redo] S
    in currentHistoryIndex S = 0
       \<and> studentId (editHistory S ! 0) = ascii ''s1''
       \<and> column (editHistory S ! 0) = ascii ''h''
       \<and> cell (grades S) (ascii ''s1'') (ascii ''h'') = Some (VStr [])
       \<and> fst (handleUndo S) = UndoDone
       \<and> fst (handleRedo (snd (handleUndo S))) = RedoDone
       \<and> currentHistoryIndex S' = 0
       \<and> cell (grades S') (ascii ''s1'') (ascii ''h'') = Some (VNum (Fin 0)))"
  by code_simp

text \<open>
  Where the cell holds what the entry at the cursor wrote, undo and then redo restore
  the whole store and the cursor.
\<close>

lemma undo_redo_restores:
  assumes c: "0 \<le> currentHistoryIndex st" "currentHistoryIndex st < int (length (editHistory st))"
    and e: "e = editHistory st ! nat (currentHistoryIndex st)"
    and v: "cell (grades st) (studentId e) (column e) = Some (newValue e)"
  shows "handleRedo (snd (handleUndo st)) = (RedoDone, st\<lparr>showUndoHistory := False\<rparr>)"
proof -
  obtain r where r: "grades st (studentId e) = Some r" "r (column e) = Some (newValue e)"
    using v by (auto simp: cell_def split: option.splits)
  have g: "setCell (setCell (grades st) (studentId e) (column e) (oldValue e))
             (studentId e) (column e) (newValue e) = grades st"
    using r by (auto simp: setCell_def fun_eq_iff)
  have u: "handleUndo st =
             (UndoDone,
              st\<lparr>grades := setCell (grades st) (studentId e) (column e) (oldValue e),
                 currentHistoryIndex := currentHistoryIndex st - 1,
                 showUndoHistory := False\<rparr>)"
    using c e by (auto simp: handleUndo_def nth_opt_def)
  have n: "nat (currentHistoryIndex st - 1 + 1) = nat (currentHistoryIndex st)"
    by simp
  show ?thesis
    unfolding u using c e g
    by (simp add: handleRedo_def nth_opt_def min_def)
qed

section \<open>Properties of the parser\<close>

text \<open>The definitions that evaluate the parser on the concrete inputs.\<close>

lemmas word_defs = ar_raqm_def ar_kud_def ar_raqm_aljulus_def ar_ism_def ar_altalib_def
  ar_talib_def ar_ism_altalib_def ar_ism_talib_def ar_kud_altalib_def ar_raqm_altalib_def
  ar_daraja_def ar_imtihan_def ar_natija_def ar_majmu_def ar_ikhtibar_def ar_mim_def ar_ta_def
  ar_almajmu_def ar_alnihai_def ar_aldaraja_def ru_kod_def ru_imya_def ru_otsenka_def
  zh_bianhao_def zh_xingming_def zh_chengji_def es_numero_def es_calificacion_def

lemma natDigits_small: "n < 10 \<Longrightarrow> 0 < fuel \<Longrightarrow> natDigits fuel n = [48 + n]"
  by (cases fuel) auto

lemmas host0_defs = host0_def lowerUnit_def upperUnit_def parseDigits_def isDigit_def
  digitsValue_def ascii_def printNat_def natDigits_small

lemmas regex_defs = regexTest_def litAt_def startsWith_def idRegex_def nameRegex_def
  gradePatterns_def idGuess_def allDigits_def hasArabicLetter_def

lemmas sheet_defs = sheetRange_def rowsOf_def colsOf_def cellV_def

lemmas scan_defs = headerInfoCell_def nameKeyword_def idKeyword_def headerInfoCount_def
  headerInfo_def rowHasInfo_def firstBest_def headerRowScan_def scanStep_def hasContent_def
  arabicMatchCount_def cellText_def trim_def isWhite_def hasArabicPattern_def
  arabicHeaderPatterns_def rowHeaders_def idNamePair_def above1000_def nameLike_def
  notFound_def


subsection \<open>parseExcelFile\<close>

lemma sheetName_readSheet: "sheetName (readSheet rt lib wb n) = n"
  by (simp add: readSheet_def split: option.splits)

lemma sheetName_enhanceSheet: "sheetName (enhanceSheet rt g sheet) = sheetName sheet"
  by (simp add: enhanceSheet_def split: option.splits)

text \<open>
  C10, as amended. A file of zero bytes, a name whose extension is neither xlsx nor xls,
  a payload on which the \<open>FileReader\<close> fails or \<open>XLSX.read\<close> throws, and a workbook
  without sheet names each make \<open>parseExcelFile\<close> reject: the result is an error and
  carries no data.
\<close>

theorem parseExcelFile_rejects:
  assumes "fileSize file = 0 \<or> \<not> allowedExtension rt file \<or> unreadable lib file
           \<or> zeroSheets lib file"
  shows "\<exists>e. parseExcelFile rt lib file = Inl e"
  using assms
  by (auto simp: parseExcelFile_def processWorkbook_def allowedExtension_def unreadable_def
      zeroSheets_def split: option.splits)

theorem parseExcelFile_rejects_witness:
  "(\<exists>e. parseExcelFile host0 libText
          \<lparr>fileSize = 0, fileName = ascii ''a.xlsx'', fileBytes = Some []\<rparr> = Inl e)
   \<and> (\<exists>e. parseExcelFile host0 libText
          \<lparr>fileSize = 3, fileName = ascii ''a.PDF'', fileBytes = Some [1, 2, 3]\<rparr> = Inl e)
   \<and> (\<exists>e. parseExcelFile host0 libText
          \<lparr>fileSize = 4, fileName = ascii ''a.xlsx'', fileBytes = Some [80, 75, 3, 4]\<rparr> = Inl e)"
proof -
  have 1: "fileSize \<lparr>fileSize = 0, fileName = ascii ''a.xlsx'', fileBytes = Some []\<rparr> = 0"
    by simp
  have 2: "\<not> allowedExtension host0
               \<lparr>fileSize = 3, fileName = ascii ''a.PDF'', fileBytes = Some [1, 2, 3]\<rparr>"
    by (simp add: allowedExtension_def fileExtension_def host0_def ascii_def lowerUnit_def)
  have 3: "unreadable libText
             \<lparr>fileSize = 4, fileName = ascii ''a.xlsx'', fileBytes = Some [80, 75, 3, 4]\<rparr>"
    by (simp add: unreadable_def libText_def)
  show ?thesis
    using parseExcelFile_rejects [of _ host0 libText] 1 2 3 by blast
qed

text \<open>
  The claim as stated fails on a payload that is no container of a workbook and that the
  library reads all the same: the three bytes 1, 2, 3 under the name \<open>a.xls\<close> start
  neither a ZIP archive nor a compound file, the library reads them as text, and
  \<open>parseExcelFile\<close> resolves with one sheet.
\<close>

theorem parseExcelFile_ingests_text_payload:
  "\<not> spreadsheetContainer [1, 2, 3]
   \<and> (\<exists>d. parseExcelFile host0 libText
             \<lparr>fileSize = 3, fileName = ascii ''a.xls'', fileBytes = Some [1, 2, 3]\<rparr> = Inr d
          \<and> map sheetName (sheets d) = [ascii ''Sheet1''])"
  by (simp add: spreadsheetContainer_def parseExcelFile_def processWorkbook_def Let_def
      fileExtension_def host0_def lowerUnit_def ascii_def libText_def
      sheetName_readSheet sheetName_enhanceSheet)

text \<open>The first two causes, by the error each raises.\<close>

lemma parseExcelFile_errors:
  "fileSize file = 0 \<Longrightarrow> parseExcelFile rt lib file = Inl EmptyFile"
  "fileSize file > 0 \<Longrightarrow> \<not> allowedExtension rt file \<Longrightarrow>
     parseExcelFile rt lib file = Inl InvalidFormat"
  by (auto simp: parseExcelFile_def allowedExtension_def)

subsection \<open>detectHeaders\<close>

lemma fold_idNameStep_unmatched:
  "list_all (unmatched rt) hs \<Longrightarrow> fold (idNameStep rt) hs im = im"
  by (induction hs arbitrary: im) (auto simp: idNameStep_def unmatched_def Let_def)

lemma potential_unmatched:
  "list_all (unmatched rt) hs \<Longrightarrow> potentialGradeColumns rt hs im = []"
  by (auto simp: potentialGradeColumns_def unmatched_def filter_empty_conv list_all_iff)

lemma find_unmatched:
  "list_all (unmatched rt) hs \<Longrightarrow> find idGuess hs = None \<and> find hasArabicLetter hs = None"
  by (auto simp: find_None_iff unmatched_def list_all_iff)

text \<open>
  C8. On a header list where nothing matches, two or more headers give the first as
  identifier and the second as name; three or more also give the third as primary grade
  and the headers after the third, without those equal to the identifier or the name, as
  additional grade columns. With exactly two headers no grade column is assigned.
\<close>

theorem detectHeaders_positional:
  assumes u: "list_all (unmatched rt) headers" and l: "2 \<le> length headers"
  shows "m_id (detectHeaders rt headers) = headers ! 0
       \<and> m_name (detectHeaders rt headers) = headers ! 1
       \<and> (3 \<le> length headers \<longrightarrow>
            m_grade (detectHeaders rt headers) = headers ! 2
            \<and> gradeColumns (detectHeaders rt headers)
                = filter (\<lambda>h. h \<noteq> headers ! 0 \<and> h \<noteq> headers ! 1) (drop 3 headers))
       \<and> (length headers = 2 \<longrightarrow>
            m_grade (detectHeaders rt headers) = [] \<and> gradeColumns (detectHeaders rt headers) = [])"
  using l
  by (auto simp: detectHeaders_def Let_def fold_idNameStep_unmatched [OF u]
      potential_unmatched [OF u] find_unmatched [OF u])

lemma scenarioB_unmatched: "list_all (unmatched host0) scenarioB"
  by (simp add: unmatched_def scenarioB_def host0_defs regex_defs word_defs)

text \<open>Scenario B: the four placeholder headers.\<close>

theorem detectHeaders_positional_witness:
  "detectHeaders host0 scenarioB
     = \<lparr>m_id = ascii ''Column 1'', m_name = ascii ''Column 2'', m_grade = ascii ''Column 3'',
        gradeColumns = [ascii ''Column 4'']\<rparr>"
proof -
  have l: "2 \<le> length scenarioB" by (simp add: scenarioB_def)
  have "m_id (detectHeaders host0 scenarioB) = ascii ''Column 1''
        \<and> m_name (detectHeaders host0 scenarioB) = ascii ''Column 2''
        \<and> m_grade (detectHeaders host0 scenarioB) = ascii ''Column 3''
        \<and> gradeColumns (detectHeaders host0 scenarioB) = [ascii ''Column 4'']"
    using detectHeaders_positional [OF scenarioB_unmatched l]
    by (simp add: scenarioB_def ascii_def)
  then show ?thesis
    by (cases "detectHeaders host0 scenarioB") simp
qed

text \<open>
  C6. The second pass leaves out the identifier and name columns the first pass found,
  and the positional guess of the grade columns filters them out; but the guesses of
  identifier and name run after the grade columns are collected. On the headers
  \<open>exam, quiz\<close> both are collected as grade columns, then taken as identifier and
  name by position: the additional grade column \<open>quiz\<close> is the name column.
\<close>

theorem detectHeaders_grade_column_is_name:
  "detectHeaders host0 [ascii ''exam'', ascii ''quiz'']
     = \<lparr>m_id = ascii ''exam'', m_name = ascii ''quiz'', m_grade = ascii ''exam'',
        gradeColumns = [ascii ''quiz'']\<rparr>"
  by (simp add: detectHeaders_def idNameStep_def potentialGradeColumns_def Let_def
      host0_defs regex_defs word_defs)

text \<open>Every column the mapping names is a header of the list, or empty when unassigned.\<close>

lemma fold_idNameStep_mem:
  "fst im \<in> A \<Longrightarrow> snd im \<in> A \<Longrightarrow> set hs \<subseteq> A \<Longrightarrow>
   fst (fold (idNameStep rt) hs im) \<in> A \<and> snd (fold (idNameStep rt) hs im) \<in> A"
  by (induction hs arbitrary: im) (auto simp: idNameStep_def Let_def)

lemma find_mem: "find P xs = Some x \<Longrightarrow> x \<in> set xs"
  by (auto simp: find_Some_iff)

lemma guess_mem: "(case find P hs of Some h \<Rightarrow> h | None \<Rightarrow> []) \<in> insert [] (set hs)"
  by (auto split: option.splits dest: find_mem)

lemma hd_potential:
  "potentialGradeColumns rt hs im \<noteq> [] \<Longrightarrow> hd (potentialGradeColumns rt hs im) \<in> set hs"
  by (metis (no_types, lifting) filter_is_subset hd_in_set potentialGradeColumns_def subsetD)

lemma tl_potential: "set (tl (potentialGradeColumns rt hs im)) \<subseteq> set hs"
  by (metis (no_types, lifting) filter_is_subset list.set_sel(2) potentialGradeColumns_def
      subsetD subsetI tl_Nil)

lemma detectHeaders_m_id:
  "m_id (detectHeaders rt headers) =
     (let im = fold (idNameStep rt) headers ([], []);
          id2 = (if fst im = []
                 then (case find idGuess headers of Some h \<Rightarrow> h | None \<Rightarrow> []) else fst im);
          name2 = (if snd im = []
                   then (case find hasArabicLetter headers of Some h \<Rightarrow> h | None \<Rightarrow> [])
                   else snd im)
      in if length headers > 0 then
           (if (id2 = [] \<or> name2 = []) \<and> length headers \<ge> 2 \<and> id2 = [] then headers ! 0
            else id2)
         else fst im)"
  by (simp add: detectHeaders_def Let_def)

lemma detectHeaders_m_name:
  "m_name (detectHeaders rt headers) =
     (let im = fold (idNameStep rt) headers ([], []);
          id2 = (if fst im = []
                 then (case find idGuess headers of Some h \<Rightarrow> h | None \<Rightarrow> []) else fst im);
          name2 = (if snd im = []
                   then (case find hasArabicLetter headers of Some h \<Rightarrow> h | None \<Rightarrow> [])
                   else snd im)
      in if length headers > 0 then
           (if (id2 = [] \<or> name2 = []) \<and> length headers \<ge> 2 \<and> name2 = [] then headers ! 1
            else name2)
         else snd im)"
  by (simp add: detectHeaders_def Let_def)

lemma detectHeaders_m_grade:
  "m_grade (detectHeaders rt headers) =
     (let potential = potentialGradeColumns rt headers (fold (idNameStep rt) headers ([], []));
          grade1 = (if length potential > 0 then hd potential else [])
      in if grade1 = [] \<and> length headers \<ge> 3 then headers ! 2 else grade1)"
  by (simp add: detectHeaders_def Let_def)

lemma detectHeaders_id_in_headers:
  "m_id (detectHeaders rt headers) \<in> insert [] (set headers)"
proof -
  have im: "fst (fold (idNameStep rt) headers ([], [])) \<in> insert [] (set headers)"
    using fold_idNameStep_mem [of "([], [])" "insert [] (set headers)" headers rt] by auto
  have g: "(case find idGuess headers of Some h \<Rightarrow> h | None \<Rightarrow> []) \<in> insert [] (set headers)"
    by (rule guess_mem)
  have n: "2 \<le> length headers \<Longrightarrow> headers ! 0 \<in> set headers" by (cases headers) auto
  show ?thesis
    unfolding detectHeaders_m_id Let_def using im g n by auto
qed

lemma detectHeaders_name_in_headers:
  "m_name (detectHeaders rt headers) \<in> insert [] (set headers)"
proof -
  have im: "snd (fold (idNameStep rt) headers ([], [])) \<in> insert [] (set headers)"
    using fold_idNameStep_mem [of "([], [])" "insert [] (set headers)" headers rt] by auto
  have g: "(case find hasArabicLetter headers of Some h \<Rightarrow> h | None \<Rightarrow> [])
             \<in> insert [] (set headers)"
    by (rule guess_mem)
  have n: "2 \<le> length headers \<Longrightarrow> headers ! 1 \<in> set headers" by simp
  show ?thesis
    unfolding detectHeaders_m_name Let_def using im g n by auto
qed

lemma detectHeaders_grade_in_headers:
  "m_grade (detectHeaders rt headers) \<in> insert [] (set headers)"
proof -
  have n: "3 \<le> length headers \<Longrightarrow> headers ! 2 \<in> set headers" by simp
  show ?thesis
    unfolding detectHeaders_m_grade Let_def using n hd_potential [of rt headers] by auto
qed

lemma detectHeaders_gradeColumns_in_headers:
  "set (gradeColumns (detectHeaders rt headers)) \<subseteq> set headers"
proof -
  have d: "set (drop 3 headers) \<subseteq> set headers" by (rule set_drop_subset)
  have "set (gradeColumns (detectHeaders rt headers))
          \<subseteq> set (tl (potentialGradeColumns rt headers (fold (idNameStep rt) headers ([], []))))
             \<union> set (drop 3 headers)"
    by (auto simp: detectHeaders_def Let_def)
  then show ?thesis
    using d tl_potential [of rt headers] by blast
qed


subsection \<open>The header row\<close>

lemma fold_headerInfoCell_snd:
  "snd (fold (headerInfoCell rt ws r) cs (f, b)) = (b \<or> list_ex (headerInfo rt ws r) cs)"
  by (induction cs arbitrary: f b) (auto simp: headerInfoCell_def headerInfo_def Let_def)

lemma fold_headerInfoCell_none:
  "\<not> list_ex (headerInfo rt ws r) cs \<Longrightarrow> fold (headerInfoCell rt ws r) cs fb = fb"
  by (induction cs arbitrary: fb) (auto simp: headerInfoCell_def headerInfo_def Let_def)

lemma keywordScan_find:
  "keywordScan rt ws rows f =
     (case find (rowHasInfo rt ws) rows of
        None \<Rightarrow> f
      | Some r \<Rightarrow> (fst (fold (headerInfoCell rt ws r) (colsOf (sheetRange ws)) (f, False)))\<lparr>hdrRow := int r\<rparr>)"
proof (induction rows arbitrary: f)
  case Nil
  then show ?case by simp
next
  case (Cons r rows)
  show ?case
  proof (cases "rowHasInfo rt ws r")
    case True
    then show ?thesis
      by (simp add: Let_def fold_headerInfoCell_snd rowHasInfo_def)
  next
    case False
    then have "fold (headerInfoCell rt ws r) (colsOf (sheetRange ws)) (f, False) = (f, False)"
      by (simp add: fold_headerInfoCell_none rowHasInfo_def)
    then show ?thesis
      using False Cons.IH [of f] by (simp add: Let_def)
  qed
qed

lemma hdrRow_keywordScan:
  "hdrRow (keywordScan rt ws rows f) =
     (case find (rowHasInfo rt ws) rows of None \<Rightarrow> hdrRow f | Some r \<Rightarrow> int r)"
  by (simp add: keywordScan_find split: option.splits)

lemma count_pos_content:
  "arabicMatchCount rt ws r > 0 \<Longrightarrow> hasContent rt ws r"
  by (auto simp: arabicMatchCount_def hasContent_def list_ex_iff filter_empty_conv
      split: option.splits)

lemma scanStep_simp:
  "scanStep rt ws r b =
     (if arabicMatchCount rt ws r > bestMatchCount b
      then \<lparr>headerRowIndex = int r, bestHeaderRow = rowHeaders rt ws r,
            bestMatchCount = arabicMatchCount rt ws r\<rparr>
      else b)"
  using count_pos_content [of rt ws r] by (auto simp: scanStep_def)

lemma fold_max_ge: "(c::nat) \<le> fold max xs c"
  by (induction xs arbitrary: c) (auto intro: order_trans [OF max.cobounded2])

lemma find_max_exists:
  "fold max (map cnt rows) (c::nat) \<noteq> c \<Longrightarrow>
   find (\<lambda>r. cnt r = fold max (map cnt rows) c) rows \<noteq> None"
proof -
  have "fold max (map cnt rows) c = c \<or> (\<exists>r\<in>set rows. cnt r = fold max (map cnt rows) c)"
  proof (induction rows arbitrary: c)
    case Nil
    then show ?case by simp
  next
    case (Cons r rows)
    show ?case
      using Cons.IH [of "max (cnt r) c"] by (auto simp: max_def split: if_splits)
  qed
  then show "fold max (map cnt rows) c \<noteq> c \<Longrightarrow> ?thesis"
    by (auto simp: find_None_iff)
qed

lemma fold_scanStep:
  "fold (scanStep rt ws) rows b =
     (let m = fold max (map (arabicMatchCount rt ws) rows) (bestMatchCount b)
      in if m = bestMatchCount b then b
         else (case find (\<lambda>r. arabicMatchCount rt ws r = m) rows of
                 None \<Rightarrow> b
               | Some r \<Rightarrow> \<lparr>headerRowIndex = int r, bestHeaderRow = rowHeaders rt ws r,
                            bestMatchCount = m\<rparr>))"
proof (induction rows arbitrary: b)
  case Nil
  then show ?case by simp
next
  case (Cons r rows)
  let ?c = "arabicMatchCount rt ws"
  let ?new = "\<lparr>headerRowIndex = int r, bestHeaderRow = rowHeaders rt ws r,
               bestMatchCount = ?c r\<rparr>"
  show ?case
  proof (cases "?c r > bestMatchCount b")
    case True
    then have s: "scanStep rt ws r b = ?new" by (simp add: scanStep_simp)
    have m: "max (?c r) (bestMatchCount b) = ?c r" using True by simp
    have ge: "?c r \<le> fold max (map ?c rows) (?c r)" by (rule fold_max_ge)
    have "fold (scanStep rt ws) (r # rows) b = fold (scanStep rt ws) rows ?new"
      by (simp add: s)
    also have "\<dots> =
       (let m = fold max (map ?c rows) (bestMatchCount ?new)
        in if m = bestMatchCount ?new then ?new
           else (case find (\<lambda>r. ?c r = m) rows of
                   None \<Rightarrow> ?new
                 | Some r \<Rightarrow> \<lparr>headerRowIndex = int r, bestHeaderRow = rowHeaders rt ws r,
                              bestMatchCount = m\<rparr>))"
      by (rule Cons.IH)
    finally show ?thesis
      using True ge find_max_exists [of "?c" rows "?c r"]
      by (auto simp: Let_def m split: option.splits)
  next
    case False
    then have s: "scanStep rt ws r b = b" by (simp add: scanStep_simp)
    have m: "max (?c r) (bestMatchCount b) = bestMatchCount b" using False by simp
    have ge: "bestMatchCount b \<le> fold max (map ?c rows) (bestMatchCount b)" by (rule fold_max_ge)
    have "fold (scanStep rt ws) (r # rows) b = fold (scanStep rt ws) rows b"
      by (simp add: s)
    also note Cons.IH [of b]
    finally show ?thesis
      using False ge by (auto simp: Let_def m split: option.splits)
  qed
qed

text \<open>
  C5, as amended. The scan of \<open>extractSheetHeaders\<close> selects the row the specification
  describes: the first row whose count of keyword cells is the highest and above zero,
  and no row when every count is zero. The first pass of \<open>processArabicExcelSheet\<close>
  does not count: it stops at the first row that has any cell with header information.
\<close>

theorem header_row_scans:
  "headerRowIndex (headerRowScan rt ws)
     = (case firstBest (arabicMatchCount rt ws) (rowsOf (sheetRange ws)) of
          None \<Rightarrow> -1 | Some r \<Rightarrow> int r)
   \<and> bestHeaderRow (headerRowScan rt ws)
     = (case firstBest (arabicMatchCount rt ws) (rowsOf (sheetRange ws)) of
          None \<Rightarrow> [] | Some r \<Rightarrow> rowHeaders rt ws r)
   \<and> hdrRow (keywordScan rt ws (rowsOf (sheetRange ws)) \<lparr>hdrRow = -1, idCol = -1, nameCol = -1\<rparr>)
     = (case find (rowHasInfo rt ws) (rowsOf (sheetRange ws)) of
          None \<Rightarrow> -1 | Some r \<Rightarrow> int r)"
  using find_max_exists [of "arabicMatchCount rt ws" "rowsOf (sheetRange ws)" 0]
  by (auto simp: headerRowScan_def fold_scanStep firstBest_def Let_def hdrRow_keywordScan
      split: option.splits)

text \<open>
  The claim as stated fails for the pass of \<open>processArabicExcelSheet\<close>: it takes
  row 0, with one keyword cell, though row 1 has two, and the two scans disagree.
\<close>

theorem keywordScan_takes_first_row:
  "hdrRow (keywordScan host0 wsTwo (rowsOf (sheetRange wsTwo))
             \<lparr>hdrRow = -1, idCol = -1, nameCol = -1\<rparr>) = 0
   \<and> headerInfoCount host0 wsTwo 0 = 1
   \<and> headerInfoCount host0 wsTwo 1 = 2
   \<and> firstBest (headerInfoCount host0 wsTwo) (rowsOf (sheetRange wsTwo)) = Some 1
   \<and> headerRowIndex (headerRowScan host0 wsTwo) = 1"
  by (simp add: wsTwo_def sheet_defs scan_defs host0_defs startsWith_def word_defs Let_def)

text \<open>What \<open>firstBest\<close> selects.\<close>

lemma fold_max_upper: "x \<in> set xs \<Longrightarrow> (x::nat) \<le> fold max xs c"
proof (induction xs arbitrary: c)
  case Nil
  then show ?case by simp
next
  case (Cons y ys)
  then show ?case
    using fold_max_ge [of "max y c" ys] by auto
qed

lemma firstBest_Some:
  assumes "firstBest cnt rows = Some r"
  shows "r \<in> set rows \<and> 0 < cnt r \<and> (\<forall>r'\<in>set rows. cnt r' \<le> cnt r)
       \<and> (\<exists>xs ys. rows = xs @ r # ys \<and> (\<forall>x\<in>set xs. cnt x < cnt r))"
proof -
  let ?m = "fold max (map cnt rows) 0"
  from assms have m: "?m \<noteq> 0" and f: "find (\<lambda>r. cnt r = ?m) rows = Some r"
    by (auto simp: firstBest_def Let_def split: if_splits)
  from f obtain i where i: "i < length rows" "rows ! i = r" "cnt r = ?m"
    "\<forall>j<i. cnt (rows ! j) \<noteq> ?m"
    by (auto simp: find_Some_iff)
  have up: "\<forall>r'\<in>set rows. cnt r' \<le> ?m"
    using fold_max_upper [of _ "map cnt rows" 0] by auto
  have split: "rows = take i rows @ r # drop (Suc i) rows"
    using i(1) i(2) id_take_nth_drop [of i rows] by simp
  have before: "\<forall>x\<in>set (take i rows). cnt x < cnt r"
  proof
    fix x assume "x \<in> set (take i rows)"
    then obtain j where j: "j < i" "x = rows ! j"
      using i(1) by (auto simp: in_set_conv_nth)
    then have "cnt x \<noteq> ?m" using i(4) by simp
    moreover have "cnt x \<le> ?m" using up j i(1) by simp
    ultimately show "cnt x < cnt r" using i(3) by simp
  qed
  have "r \<in> set rows" using i(1) i(2) by auto
  moreover have "0 < cnt r" using m i(3) by simp
  moreover have "\<forall>r'\<in>set rows. cnt r' \<le> cnt r" using up i(3) by simp
  ultimately show ?thesis
    using split before by blast
qed

subsection \<open>The fallback to the raw rows\<close>

lemma obj_set_fresh: "k \<notin> fst ` set r \<Longrightarrow> obj_set r k v = r @ [(k, v)]"
  by (induction r) auto

lemma copyRow_aux:
  "distinct (map fst (acc @ r)) \<Longrightarrow>
   fold (\<lambda>k a. obj_set a k (the (map_of (acc @ r) k))) (map fst r) acc = acc @ r"
proof (induction r arbitrary: acc)
  case Nil
  then show ?case by simp
next
  case (Cons kv r)
  obtain k v where kv: "kv = (k, v)" by (cases kv)
  have fresh: "k \<notin> fst ` set acc" using Cons.prems kv by auto
  have "map_of acc k = None" using fresh by (simp add: map_of_eq_None_iff)
  then have look: "map_of (acc @ (k, v) # r) k = Some v"
    by (simp add: map_add_def)
  have d: "distinct (map fst ((acc @ [(k, v)]) @ r))" using Cons.prems kv by simp
  show ?case
    using Cons.IH [OF d] look fresh
    by (simp add: kv obj_set_fresh del: map_of_append)
qed

lemma copyRow_id: "distinct (objectKeys r) \<Longrightarrow> copyRow r = r"
  using copyRow_aux [of "[]" r] by (simp add: copyRow_def objectKeys_def row_get_def)

lemma shapeScan_none:
  "\<not> list_ex (\<lambda>r. list_ex (idNamePair ws r) (colsOf (sheetRange ws))) rows \<Longrightarrow>
   shapeScan ws rows f = f"
  by (induction rows arbitrary: f)
    (auto simp: find_None_iff find_Some_iff list_ex_iff split: option.splits)

lemma locate_notFound:
  "notFound rt ws \<Longrightarrow> locate rt ws = \<lparr>hdrRow = -1, idCol = -1, nameCol = -1\<rparr>"
  by (auto simp: notFound_def locate_def Let_def keywordScan_find shapeScan_none find_None_iff
      find_Some_iff list_ex_iff split: option.splits)

text \<open>
  C9. Where neither pass finds anything, \<open>processArabicExcelSheet\<close> reports no header
  row and returns the rows of \<open>sheet_to_json\<close>, each copied key by key: as many rows,
  in the same order, and (the keys of an object being distinct) the very same rows.
\<close>

theorem notFound_keeps_raw_rows:
  assumes "notFound rt ws"
  shows "hdrRow (locate rt ws) < 0
       \<and> processArabicExcelSheet rt lib ws = map copyRow (sheet_to_json lib ws)
       \<and> length (processArabicExcelSheet rt lib ws) = length (sheet_to_json lib ws)
       \<and> (list_all (\<lambda>r. distinct (objectKeys r)) (sheet_to_json lib ws) \<longrightarrow>
            processArabicExcelSheet rt lib ws = sheet_to_json lib ws)"
proof -
  have p: "processArabicExcelSheet rt lib ws = map copyRow (sheet_to_json lib ws)"
    by (simp add: processArabicExcelSheet_def Let_def locate_notFound [OF assms])
  have i: "list_all (\<lambda>r. distinct (objectKeys r)) rs \<Longrightarrow> map copyRow rs = rs" for rs
    by (induction rs) (auto simp: copyRow_id)
  show ?thesis
    using p i [of "sheet_to_json lib ws"] by (simp add: locate_notFound [OF assms])
qed

lemma wsPlain_notFound: "notFound host0 wsPlain"
  by (simp add: wsPlain_def sheet_defs scan_defs host0_defs startsWith_def word_defs Let_def)

theorem notFound_keeps_raw_rows_witness:
  "notFound host0 wsPlain
   \<and> processArabicExcelSheet host0 libPlain wsPlain
       = [[(ascii ''a'', VNum (Fin 5)), (ascii ''b'', VStr (ascii ''x y''))]]"
proof -
  have d: "list_all (\<lambda>r. distinct (objectKeys r)) (sheet_to_json libPlain wsPlain)"
    by (simp add: libPlain_def objectKeys_def ascii_def)
  from notFound_keeps_raw_rows [OF wsPlain_notFound, of libPlain] d
  have "processArabicExcelSheet host0 libPlain wsPlain = sheet_to_json libPlain wsPlain"
    by blast
  then show ?thesis
    using wsPlain_notFound by (simp add: libPlain_def)
qed

text \<open>The same holds whenever one of the three indices is missing.\<close>

lemma fallback_keeps_raw_rows:
  assumes "hdrRow (locate rt ws) < 0 \<or> idCol (locate rt ws) < 0 \<or> nameCol (locate rt ws) < 0"
  shows "processArabicExcelSheet rt lib ws = map copyRow (sheet_to_json lib ws)"
  using assms by (auto simp: processArabicExcelSheet_def Let_def)

section \<open>Replaying the history\<close>































end
